theory Spec2Isabelle
  imports Main "HOL-Library.Word"
begin

section \<open>SPI master/slave loopback application (hart u54_1)\<close>

text \<open>
  The application drives SPI0 as controller and SPI1 as responder over the internal
  loopback.  The controller sends a one-byte command followed by four turnaround bytes;
  the responder's command handler selects a row of \<open>g_slave_tx_buffer\<close> and hands it to
  the SPI driver as the response of the running transfer.

  The application file is embedded function by function.  The SPI driver
  (\<open>drivers/mss/mss_spi\<close>) and the HAL (\<open>mpfs_hal\<close>) are separate parts of the library
  whose code is not embedded: every call into them is recorded in a call log with its
  actual arguments, and the driver effects the properties below depend on are modelled
  from the specification, each marked as such.
\<close>

type_synonym u8 = "8 word"
type_synonym u32 = "32 word"

subsection \<open>Macro definitions\<close>

definition COMMAND_BYTE_SIZE :: u32 where
  "COMMAND_BYTE_SIZE = 1"

definition NB_OF_TURNAROUND_BYTES :: u32 where
  "NB_OF_TURNAROUND_BYTES = 4"

definition SLAVE_NB_OF_COMMANDS :: u32 where
  "SLAVE_NB_OF_COMMANDS = 4"

definition SLAVE_PACKET_LENGTH :: u32 where
  "SLAVE_PACKET_LENGTH = 8"

text \<open>\<open>MPFS_HAL_FIRST_HART\<close> as \<open>mss_sw_config.h\<close> defines it when the build does not.\<close>

definition MPFS_HAL_FIRST_HART :: u8 where
  "MPFS_HAL_FIRST_HART = 0"

subsection \<open>Names of the collaborators' objects\<close>

datatype mss_peripheral = MSS_PERIPH_SPI0 | MSS_PERIPH_SPI1

datatype PERIPH_RESET_STATE = PERIPHERAL_ON | PERIPHERAL_OFF

text \<open>The two driver instances the application uses, \<open>g_mss_spi0_lo\<close> and \<open>g_mss_spi1_lo\<close>.\<close>

datatype spi_id = SPI0_LO | SPI1_LO

datatype plic_source = SPI0_PLIC | SPI1_PLIC

datatype mss_spi_slave = MSS_SPI_SLAVE_1

datatype mss_spi_mode = MSS_SPI_MODE1

datatype mss_spi_frame_size = MSS_SPI_BLOCK_TRANSFER_FRAME_SIZE

text \<open>
  Function pointers handed to the driver: the two handlers of type
  \<open>void (uint8_t *, uint32_t)\<close>, and the overflow handler of type \<open>void (uint8_t)\<close>.
\<close>

datatype block_callback = Spi1_slave_cmd_handler | Spi1_block_rx_handler

datatype overflow_callback = Mss_spi_overflow_handler

text \<open>
  A pointer into the response table: \<open>Slave_tx_at r c\<close> is \<open>&g_slave_tx_buffer[r][c]\<close>.
\<close>

datatype tx_ptr = Slave_tx_at nat nat

subsection \<open>The call log\<close>

text \<open>
  One constructor per external function the application calls, carrying the actual
  arguments.  A transfer carries the bytes of the command buffer that are sent, the
  command size and the read size.
\<close>

datatype call =
    Call_mss_config_clk_rst mss_peripheral u8 PERIPH_RESET_STATE
  | Call_PLIC_init
  | Call_enable_irq
  | Call_PLIC_SetPriority plic_source u32
  | Call_MSS_SPI_init spi_id
  | Call_MSS_SPI_configure_master_mode spi_id mss_spi_slave mss_spi_mode u32
      mss_spi_frame_size overflow_callback
  | Call_MSS_SPI_configure_slave_mode spi_id mss_spi_mode mss_spi_frame_size
      overflow_callback
  | Call_MSS_SPI_set_slave_block_buffers spi_id tx_ptr u32 u32 block_callback
  | Call_MSS_SPI_set_cmd_handler spi_id block_callback u32
  | Call_MSS_SPI_set_slave_select spi_id mss_spi_slave
  | Call_MSS_SPI_clear_slave_select spi_id mss_spi_slave
  | Call_MSS_SPI_transfer_block spi_id "u8 list" u32 u32
  | Call_MSS_SPI_set_cmd_response spi_id tx_ptr u32

subsection \<open>State\<close>

text \<open>
  Modelled from the spec: the driver's instance type \<open>mss_spi_instance_t\<close> (declared in
  the driver's header, not among the sources).  Only what the application configures
  is kept: the slave's default transmit buffer and its length, the size of its receive
  buffer, the registered handlers with the command size, and the response staged for
  the running transfer (the specification's ResponderState: staged reply pointer and
  length).  \<open>None\<close> is the null pointer of an instance that has not been given the
  field yet.
\<close>

record mss_spi_instance =
  slave_tx_buffer :: "tx_ptr option"
  slave_tx_size :: u32
  slave_rx_size :: u32
  block_rx_handler :: "block_callback option"
  cmd_handler :: "block_callback option"
  cmd_size :: u32
  resp_tx_buffer :: "tx_ptr option"
  resp_buff_size :: u32
  buffer_overflow_handler :: "overflow_callback option"

text \<open>
  The program state: the four global buffers, the local \<open>cmd_idx\<close> of \<open>u54_1\<close> (the
  function never returns, so the local lives as long as the program), the two driver
  instances, the clock/reset state of the two SPI peripherals, and the call log.
\<close>

record sys_state =
  g_slave_tx_buffer :: "u8 list list"
  g_master_tx_buffer :: "u8 list"
  g_master_rx_buffer :: "u8 list"
  g_slave_rx_buffer :: "u8 list"
  cmd_idx :: u8
  g_mss_spi0_lo :: mss_spi_instance
  g_mss_spi1_lo :: mss_spi_instance
  periph_spi0 :: PERIPH_RESET_STATE
  periph_spi1 :: PERIPH_RESET_STATE
  calls :: "call list"

definition blank_instance :: mss_spi_instance where
  "blank_instance =
     \<lparr>slave_tx_buffer = None, slave_tx_size = 0, slave_rx_size = 0,
      block_rx_handler = None, cmd_handler = None, cmd_size = 0,
      resp_tx_buffer = None, resp_buff_size = 0, buffer_overflow_handler = None\<rparr>"

text \<open>
  The state at entry of \<open>u54_1\<close>: the globals hold their initialisers; nothing has been
  configured or called, and neither peripheral has been switched on yet.
\<close>

definition boot_state :: sys_state where
  "boot_state =
     \<lparr>g_slave_tx_buffer =
        [[0x01, 0x02, 0x03, 0x04, 0x05, 0x06, 0x07, 0x08],
         [0x11, 0x12, 0x13, 0x14, 0x15, 0x16, 0x17, 0x18],
         [0x21, 0x22, 0x23, 0x24, 0x25, 0x26, 0x27, 0x28],
         [0x31, 0x32, 0x33, 0x34, 0x35, 0x36, 0x37, 0x38]],
      g_master_tx_buffer = [0x00, 0x01, 0x02, 0x03, 0xAA],
      g_master_rx_buffer = replicate 8 0,
      g_slave_rx_buffer = replicate 13 0,
      cmd_idx = 0,
      g_mss_spi0_lo = blank_instance,
      g_mss_spi1_lo = blank_instance,
      periph_spi0 = PERIPHERAL_OFF,
      periph_spi1 = PERIPHERAL_OFF,
      calls = []\<rparr>"

definition log_call :: "call \<Rightarrow> sys_state \<Rightarrow> sys_state" where
  "log_call c s = s\<lparr>calls := calls s @ [c]\<rparr>"

definition get_spi :: "sys_state \<Rightarrow> spi_id \<Rightarrow> mss_spi_instance" where
  "get_spi s i = (case i of SPI0_LO \<Rightarrow> g_mss_spi0_lo s | SPI1_LO \<Rightarrow> g_mss_spi1_lo s)"

definition set_spi :: "spi_id \<Rightarrow> mss_spi_instance \<Rightarrow> sys_state \<Rightarrow> sys_state" where
  "set_spi i r s =
     (case i of SPI0_LO \<Rightarrow> s\<lparr>g_mss_spi0_lo := r\<rparr> | SPI1_LO \<Rightarrow> s\<lparr>g_mss_spi1_lo := r\<rparr>)"

text \<open>
  Reading \<open>n\<close> bytes through a pointer into the response table.  The table is a C array
  of arrays, so its rows lie one after the other and a read that runs past the end of a
  row continues in the next one; a read past the end of the table yields fewer bytes.
\<close>

fun read_slave_tx :: "sys_state \<Rightarrow> tx_ptr \<Rightarrow> nat \<Rightarrow> u8 list" where
  "read_slave_tx s (Slave_tx_at r c) n =
     take n (drop (r * unat SLAVE_PACKET_LENGTH + c) (concat (g_slave_tx_buffer s)))"

text \<open>Whether the \<open>n\<close> bytes behind a pointer all lie inside the response table.\<close>

fun inside_table :: "sys_state \<Rightarrow> tx_ptr \<Rightarrow> nat \<Rightarrow> bool" where
  "inside_table s (Slave_tx_at r c) n =
     (r * unat SLAVE_PACKET_LENGTH + c + n \<le> length (concat (g_slave_tx_buffer s)))"

subsection \<open>HAL and driver calls outside the protocol\<close>

text \<open>
  The specification treats interrupt-controller set-up, driver initialisation and the
  slave select line as external collaborators outside the protocol.  These functions
  are not among the sources; their calls are logged with their arguments and have no
  other effect on the state.
\<close>

text \<open>Modelled from the spec: \<open>PLIC_init\<close> (HAL, not among the sources); logged only.\<close>

definition PLIC_init :: "sys_state \<Rightarrow> sys_state" where
  "PLIC_init s = log_call Call_PLIC_init s"

text \<open>Modelled from the spec: \<open>__enable_irq\<close> (HAL, not among the sources); logged only.\<close>

definition enable_irq :: "sys_state \<Rightarrow> sys_state" where
  "enable_irq s = log_call Call_enable_irq s"

text \<open>
  Modelled from the spec: \<open>PLIC_SetPriority\<close> (HAL, not among the sources); logged only.
\<close>

definition PLIC_SetPriority :: "sys_state \<Rightarrow> plic_source \<Rightarrow> u32 \<Rightarrow> sys_state" where
  "PLIC_SetPriority s src p = log_call (Call_PLIC_SetPriority src p) s"

text \<open>
  Modelled from the spec: \<open>MSS_SPI_init\<close> (driver, not among the sources); logged only.
\<close>

definition MSS_SPI_init :: "sys_state \<Rightarrow> spi_id \<Rightarrow> sys_state" where
  "MSS_SPI_init s this_spi = log_call (Call_MSS_SPI_init this_spi) s"

text \<open>
  Modelled from the spec: \<open>MSS_SPI_set_slave_select\<close> (driver, not among the sources);
  logged only.
\<close>

definition MSS_SPI_set_slave_select :: "sys_state \<Rightarrow> spi_id \<Rightarrow> mss_spi_slave \<Rightarrow> sys_state" where
  "MSS_SPI_set_slave_select s this_spi slave =
     log_call (Call_MSS_SPI_set_slave_select this_spi slave) s"

text \<open>
  Modelled from the spec: \<open>MSS_SPI_clear_slave_select\<close> (driver, not among the sources);
  logged only.
\<close>

definition MSS_SPI_clear_slave_select :: "sys_state \<Rightarrow> spi_id \<Rightarrow> mss_spi_slave \<Rightarrow> sys_state" where
  "MSS_SPI_clear_slave_select s this_spi slave =
     log_call (Call_MSS_SPI_clear_slave_select this_spi slave) s"

subsection \<open>Driver and HAL effects modelled from the specification\<close>

text \<open>
  Modelled from the spec: \<open>MSS_SPI_configure_master_mode\<close> (driver, not among the
  sources).  Of its arguments only the overflow handler matters to the protocol (the
  specification's \<open>register_overflow_handler(handler)\<close>); it is kept in the instance.
\<close>

definition MSS_SPI_configure_master_mode ::
  "sys_state \<Rightarrow> spi_id \<Rightarrow> mss_spi_slave \<Rightarrow> mss_spi_mode \<Rightarrow> u32 \<Rightarrow> mss_spi_frame_size \<Rightarrow>
   overflow_callback \<Rightarrow> sys_state" where
  "MSS_SPI_configure_master_mode s this_spi slave mode clk_div fsize h =
     set_spi this_spi ((get_spi s this_spi)\<lparr>buffer_overflow_handler := Some h\<rparr>)
       (log_call (Call_MSS_SPI_configure_master_mode this_spi slave mode clk_div fsize h) s)"

text \<open>
  Modelled from the spec: \<open>MSS_SPI_configure_slave_mode\<close> (driver, not among the
  sources); as for the master, the overflow handler is kept in the instance.
\<close>

definition MSS_SPI_configure_slave_mode ::
  "sys_state \<Rightarrow> spi_id \<Rightarrow> mss_spi_mode \<Rightarrow> mss_spi_frame_size \<Rightarrow> overflow_callback \<Rightarrow>
   sys_state" where
  "MSS_SPI_configure_slave_mode s this_spi mode fsize h =
     set_spi this_spi ((get_spi s this_spi)\<lparr>buffer_overflow_handler := Some h\<rparr>)
       (log_call (Call_MSS_SPI_configure_slave_mode this_spi mode fsize h) s)"

text \<open>
  Modelled from the spec: \<open>mss_config_clk_rst\<close> (HAL, not among the sources).  The
  specification describes the overflow recovery as re-enabling the endpoint's transport
  channel and nothing else; the model sets the clock/reset state of the named
  peripheral to the requested value and logs the call.
\<close>

definition mss_config_clk_rst ::
  "sys_state \<Rightarrow> mss_peripheral \<Rightarrow> u8 \<Rightarrow> PERIPH_RESET_STATE \<Rightarrow> sys_state" where
  "mss_config_clk_rst s periph hart req =
     (let s' = log_call (Call_mss_config_clk_rst periph hart req) s
      in case periph of
           MSS_PERIPH_SPI0 \<Rightarrow> s'\<lparr>periph_spi0 := req\<rparr>
         | MSS_PERIPH_SPI1 \<Rightarrow> s'\<lparr>periph_spi1 := req\<rparr>)"

text \<open>
  Modelled from the spec: \<open>MSS_SPI_set_slave_block_buffers\<close> (driver, not among the
  sources).  The specification names its frame callback (\<open>register_frame_callback\<close>);
  the transmit pointer with its length and the size of the receive buffer are kept in
  the instance as they are passed.
\<close>

definition MSS_SPI_set_slave_block_buffers ::
  "sys_state \<Rightarrow> spi_id \<Rightarrow> tx_ptr \<Rightarrow> u32 \<Rightarrow> u32 \<Rightarrow> block_callback \<Rightarrow> sys_state" where
  "MSS_SPI_set_slave_block_buffers s this_spi tx_buffer tx_buff_size rx_buff_size h =
     set_spi this_spi
       ((get_spi s this_spi)\<lparr>slave_tx_buffer := Some tx_buffer,
          slave_tx_size := tx_buff_size, slave_rx_size := rx_buff_size,
          block_rx_handler := Some h\<rparr>)
       (log_call
          (Call_MSS_SPI_set_slave_block_buffers this_spi tx_buffer tx_buff_size rx_buff_size h) s)"

text \<open>
  Modelled from the spec: \<open>MSS_SPI_set_cmd_handler\<close> (driver, not among the sources),
  the specification's \<open>register_command_callback(prefix_len, handler)\<close>.
\<close>

definition MSS_SPI_set_cmd_handler ::
  "sys_state \<Rightarrow> spi_id \<Rightarrow> block_callback \<Rightarrow> u32 \<Rightarrow> sys_state" where
  "MSS_SPI_set_cmd_handler s this_spi h n =
     set_spi this_spi ((get_spi s this_spi)\<lparr>cmd_handler := Some h, cmd_size := n\<rparr>)
       (log_call (Call_MSS_SPI_set_cmd_handler this_spi h n) s)"

text \<open>
  Modelled from the spec: \<open>MSS_SPI_set_cmd_response\<close> (driver, not among the sources),
  the specification's \<open>stage_reply(payload_ptr, payload_len)\<close>: it records the pointer
  and the length of the reply of the running frame.
\<close>

definition MSS_SPI_set_cmd_response ::
  "sys_state \<Rightarrow> spi_id \<Rightarrow> tx_ptr \<Rightarrow> u32 \<Rightarrow> sys_state" where
  "MSS_SPI_set_cmd_response s this_spi p n =
     set_spi this_spi ((get_spi s this_spi)\<lparr>resp_tx_buffer := Some p, resp_buff_size := n\<rparr>)
       (log_call (Call_MSS_SPI_set_cmd_response this_spi p n) s)"

subsection \<open>The application's handlers\<close>

text \<open>\<open>spi1_block_rx_handler\<close>: the body is empty.\<close>

definition spi1_block_rx_handler :: "sys_state \<Rightarrow> u8 list \<Rightarrow> u32 \<Rightarrow> sys_state option" where
  "spi1_block_rx_handler s rx_buff rx_size = Some s"

text \<open>
  \<open>spi1_slave_cmd_handler\<close>.  \<open>rx_buff\<close> holds the bytes behind the pointer the driver
  passes; reading \<open>rx_buff[0]\<close> from an empty buffer is out of range and yields \<open>None\<close>.
  The comparison \<open>index < SLAVE_NB_OF_COMMANDS\<close> is between a \<open>uint8_t\<close> and an unsigned
  constant, so it is made on the zero-extended index.
\<close>

definition spi1_slave_cmd_handler :: "sys_state \<Rightarrow> u8 list \<Rightarrow> u32 \<Rightarrow> sys_state option" where
  "spi1_slave_cmd_handler s rx_buff rx_size =
     (case rx_buff of
        [] \<Rightarrow> None
      | index # _ \<Rightarrow>
          let p_response =
                (if (ucast index :: u32) < SLAVE_NB_OF_COMMANDS
                 then Slave_tx_at (unat index) 0
                 else Slave_tx_at 0 0)
          in Some (MSS_SPI_set_cmd_response s SPI1_LO p_response SLAVE_PACKET_LENGTH))"

text \<open>\<open>mss_spi_overflow_handler\<close>: \<open>if (mss_spi_core)\<close> tests the argument against zero.\<close>

definition mss_spi_overflow_handler :: "sys_state \<Rightarrow> u8 \<Rightarrow> sys_state" where
  "mss_spi_overflow_handler s mss_spi_core =
     (if mss_spi_core \<noteq> 0
      then mss_config_clk_rst s MSS_PERIPH_SPI1 MPFS_HAL_FIRST_HART PERIPHERAL_ON
      else mss_config_clk_rst s MSS_PERIPH_SPI0 MPFS_HAL_FIRST_HART PERIPHERAL_ON)"

subsection \<open>The framed transfer\<close>

text \<open>Calling one of the registered \<open>void (uint8_t *, uint32_t)\<close> handlers.\<close>

definition run_block_callback ::
  "block_callback \<Rightarrow> sys_state \<Rightarrow> u8 list \<Rightarrow> u32 \<Rightarrow> sys_state option" where
  "run_block_callback h s rx_buff rx_size =
     (case h of
        Spi1_slave_cmd_handler \<Rightarrow> spi1_slave_cmd_handler s rx_buff rx_size
      | Spi1_block_rx_handler \<Rightarrow> spi1_block_rx_handler s rx_buff rx_size)"

text \<open>
  Modelled from the spec: the reply payload of a frame.  It is what the responder has
  staged: the staged length, read behind the staged pointer; nothing when no reply has
  been staged yet.
\<close>

definition staged_reply :: "sys_state \<Rightarrow> u8 list" where
  "staged_reply s =
     (case resp_tx_buffer (g_mss_spi1_lo s) of
        None \<Rightarrow> []
      | Some p \<Rightarrow> read_slave_tx s p (unat (resp_buff_size (g_mss_spi1_lo s))))"

text \<open>
  Modelled from the spec: the command event of the transport.  The responder's command
  callback fires once per frame, as soon as the registered prefix of the frame has been
  received, with exactly that prefix; a frame shorter than the prefix, or a responder
  without a command callback, raises no event.
\<close>

definition command_event :: "sys_state \<Rightarrow> u8 list \<Rightarrow> sys_state option" where
  "command_event s frame =
     (let r = g_mss_spi1_lo s
      in case cmd_handler r of
           None \<Rightarrow> Some s
         | Some h \<Rightarrow>
             if unat (cmd_size r) \<le> length frame
             then run_block_callback h s (take (unat (cmd_size r)) frame) (cmd_size r)
             else Some s)"

text \<open>
  Modelled from the spec: the frame event of the transport, the second callback, fired
  once the whole frame has been received.
\<close>

definition frame_event :: "sys_state \<Rightarrow> u8 list \<Rightarrow> sys_state option" where
  "frame_event s frame =
     (case block_rx_handler (g_mss_spi1_lo s) of
        None \<Rightarrow> Some s
      | Some h \<Rightarrow> run_block_callback h s frame (of_nat (length frame)))"

text \<open>
  Modelled from the spec: \<open>MSS_SPI_transfer_block\<close> (driver, not among the sources),
  the specification's \<open>send_receive_frame(tx_bytes, tx_len, rx_buffer, rx_len)\<close> over
  the loopback.  The controller sends the first \<open>cmd_byte_size\<close> bytes of
  \<open>cmd_buffer\<close>; the responder's command callback runs on the command prefix and stages
  a reply; the staged reply rides back in the same frame and its first \<open>rd_byte_size\<close>
  bytes are stored at the start of the receive buffer; then the frame callback runs.
  The receive buffer is always \<open>g_master_rx_buffer\<close>, the only one the application
  passes.  Reading more command bytes than \<open>cmd_buffer\<close> holds, or storing more bytes
  than the receive buffer holds, is out of range and yields \<open>None\<close>.
\<close>

definition MSS_SPI_transfer_block ::
  "sys_state \<Rightarrow> spi_id \<Rightarrow> u8 list \<Rightarrow> u32 \<Rightarrow> u32 \<Rightarrow> sys_state option" where
  "MSS_SPI_transfer_block s this_spi cmd_buffer cmd_byte_size rd_byte_size =
     (if length cmd_buffer < unat cmd_byte_size
         \<or> length (g_master_rx_buffer s) < unat rd_byte_size
      then None
      else
        let sent = take (unat cmd_byte_size) cmd_buffer;
            s1 = log_call
                   (Call_MSS_SPI_transfer_block this_spi sent cmd_byte_size rd_byte_size) s
        in case command_event s1 sent of
             None \<Rightarrow> None
           | Some s2 \<Rightarrow>
               let reply = take (unat rd_byte_size) (staged_reply s2);
                   s3 = s2\<lparr>g_master_rx_buffer :=
                             reply @ drop (length reply) (g_master_rx_buffer s2)\<rparr>
               in frame_event s3 sent)"

subsection \<open>The main function of the hart\<close>

text \<open>
  \<open>u54_1\<close> up to its loop: the initialisation of \<open>cmd_idx\<close>, then the calls in source
  order.  The wait for the software interrupt that precedes them when the image is not
  loaded by a boot loader touches none of the state and is left out.
  \<open>sizeof(g_slave_rx_buffer)\<close> is the length of that buffer.
\<close>

definition u54_1_init :: "sys_state \<Rightarrow> sys_state" where
  "u54_1_init s0 =
     (let s = s0\<lparr>cmd_idx := 0\<rparr>;
          s = mss_config_clk_rst s MSS_PERIPH_SPI0 MPFS_HAL_FIRST_HART PERIPHERAL_ON;
          s = mss_config_clk_rst s MSS_PERIPH_SPI1 MPFS_HAL_FIRST_HART PERIPHERAL_ON;
          s = PLIC_init s;
          s = enable_irq s;
          s = PLIC_SetPriority s SPI0_PLIC 2;
          s = PLIC_SetPriority s SPI1_PLIC 2;
          s = MSS_SPI_init s SPI0_LO;
          s = MSS_SPI_configure_master_mode s SPI0_LO MSS_SPI_SLAVE_1 MSS_SPI_MODE1 256
                MSS_SPI_BLOCK_TRANSFER_FRAME_SIZE Mss_spi_overflow_handler;
          s = MSS_SPI_init s SPI1_LO;
          s = MSS_SPI_configure_slave_mode s SPI1_LO MSS_SPI_MODE1
                MSS_SPI_BLOCK_TRANSFER_FRAME_SIZE Mss_spi_overflow_handler;
          s = MSS_SPI_set_slave_block_buffers s SPI1_LO (Slave_tx_at 0 0)
                (COMMAND_BYTE_SIZE + NB_OF_TURNAROUND_BYTES)
                (of_nat (length (g_slave_rx_buffer s))) Spi1_block_rx_handler;
          s = MSS_SPI_set_cmd_handler s SPI1_LO Spi1_slave_cmd_handler COMMAND_BYTE_SIZE;
          s = MSS_SPI_set_slave_select s SPI0_LO MSS_SPI_SLAVE_1
      in s)"

text \<open>
  One pass through the body of \<open>for (;;)\<close>.  \<open>sizeof(g_master_rx_buffer)\<close> is the length
  of that buffer; \<open>3u == cmd_idx\<close> compares the zero-extended index; \<open>++cmd_idx\<close> is an
  8-bit increment.
\<close>

definition u54_1_loop_body :: "sys_state \<Rightarrow> sys_state option" where
  "u54_1_loop_body s0 =
     (let s1 = MSS_SPI_set_slave_select s0 SPI0_LO MSS_SPI_SLAVE_1
      in case MSS_SPI_transfer_block s1 SPI0_LO (g_master_tx_buffer s1)
                (COMMAND_BYTE_SIZE + NB_OF_TURNAROUND_BYTES)
                (of_nat (length (g_master_rx_buffer s1))) of
           None \<Rightarrow> None
         | Some s2 \<Rightarrow>
             let s3 = MSS_SPI_clear_slave_select s2 SPI0_LO MSS_SPI_SLAVE_1;
                 s4 = (if (3 :: u32) = ucast (cmd_idx s3)
                       then s3\<lparr>cmd_idx := 0\<rparr>
                       else s3\<lparr>cmd_idx := cmd_idx s3 + 1\<rparr>)
             in Some (s4\<lparr>g_master_tx_buffer := (g_master_tx_buffer s4)[0 := cmd_idx s4]\<rparr>))"

text \<open>
  The loop has no exit.  \<open>u54_1_cycles n\<close> runs its first \<open>n\<close> passes; \<open>None\<close> means a
  pass went out of range.
\<close>

fun u54_1_cycles :: "nat \<Rightarrow> sys_state \<Rightarrow> sys_state option" where
  "u54_1_cycles 0 s = Some s"
| "u54_1_cycles (Suc n) s =
     (case u54_1_loop_body s of None \<Rightarrow> None | Some s' \<Rightarrow> u54_1_cycles n s')"

definition u54_1 :: "nat \<Rightarrow> sys_state option" where
  "u54_1 n = u54_1_cycles n (u54_1_init boot_state)"

subsection \<open>Observations\<close>

text \<open>
  The transfers of a call log, oldest first: the bytes sent, the command size and the
  read size of each.
\<close>

fun transfers :: "call list \<Rightarrow> (u8 list \<times> u32 \<times> u32) list" where
  "transfers [] = []"
| "transfers (Call_MSS_SPI_transfer_block i bs n m # cs) = (bs, n, m) # transfers cs"
| "transfers (c # cs) = transfers cs"

text \<open>
  What the slave sends when no command response has been staged: the default transmit
  buffer in its configured length.
\<close>

definition default_transmission :: "sys_state \<Rightarrow> u8 list" where
  "default_transmission s =
     (case slave_tx_buffer (g_mss_spi1_lo s) of
        None \<Rightarrow> []
      | Some p \<Rightarrow> read_slave_tx s p (unat (slave_tx_size (g_mss_spi1_lo s))))"

text \<open>
  The configuration the protocol runs in: the response table has its declared shape,
  the controller's receive buffer its declared size, and the responder has the two
  handlers registered with the command size.
\<close>

definition configured :: "sys_state \<Rightarrow> bool" where
  "configured s \<longleftrightarrow>
     length (g_slave_tx_buffer s) = unat SLAVE_NB_OF_COMMANDS
   \<and> list_all (\<lambda>row. length row = unat SLAVE_PACKET_LENGTH) (g_slave_tx_buffer s)
   \<and> length (g_master_rx_buffer s) = unat SLAVE_PACKET_LENGTH
   \<and> cmd_handler (g_mss_spi1_lo s) = Some Spi1_slave_cmd_handler
   \<and> cmd_size (g_mss_spi1_lo s) = COMMAND_BYTE_SIZE
   \<and> block_rx_handler (g_mss_spi1_lo s) = Some Spi1_block_rx_handler"

text \<open>The peripherals switched by the clock/reset calls of a call log, oldest first.\<close>

fun switched :: "call list \<Rightarrow> (mss_peripheral \<times> PERIPH_RESET_STATE) list" where
  "switched [] = []"
| "switched (Call_mss_config_clk_rst p h r # cs) = (p, r) # switched cs"
| "switched (c # cs) = switched cs"

text \<open>
  The state at the start of pass \<open>k\<close> of the loop, counted from 0: the configuration
  holds, and the command index and the transmit buffer carry the command of that pass.
\<close>

definition at_cycle :: "nat \<Rightarrow> sys_state \<Rightarrow> bool" where
  "at_cycle k s \<longleftrightarrow>
     configured s
   \<and> cmd_idx s = of_nat (k mod 4)
   \<and> g_master_tx_buffer s = [of_nat (k mod 4), 0x01, 0x02, 0x03, 0xAA]"

text \<open>
  The protocol state: everything but the clock/reset state of the peripherals and the
  call log, that is the buffers, the command index and both driver instances.
\<close>

definition protocol_view ::
  "sys_state \<Rightarrow>
   u8 list list \<times> u8 list \<times> u8 list \<times> u8 list \<times> u8 \<times> mss_spi_instance \<times> mss_spi_instance" where
  "protocol_view s =
     (g_slave_tx_buffer s, g_master_tx_buffer s, g_master_rx_buffer s, g_slave_rx_buffer s,
      cmd_idx s, g_mss_spi0_lo s, g_mss_spi1_lo s)"

text \<open>The calls logged on the way from state \<open>s\<close> to a later state \<open>t\<close>.\<close>

definition new_calls :: "sys_state \<Rightarrow> sys_state \<Rightarrow> call list" where
  "new_calls s t = drop (length (calls s)) (calls t)"

text \<open>
  \<open>only_staging s t\<close>: state \<open>t\<close> differs from \<open>s\<close> at most in the response staged at
  the responder, in the controller's receive buffer and in the call log.  The response
  table, the transmit buffer, the command index, the responder's receive buffer, the
  controller's instance, the rest of the responder's instance and the peripherals are
  the same.
\<close>

definition only_staging :: "sys_state \<Rightarrow> sys_state \<Rightarrow> bool" where
  "only_staging s t \<longleftrightarrow>
     g_slave_tx_buffer t = g_slave_tx_buffer s
   \<and> g_master_tx_buffer t = g_master_tx_buffer s
   \<and> g_slave_rx_buffer t = g_slave_rx_buffer s
   \<and> cmd_idx t = cmd_idx s
   \<and> g_mss_spi0_lo t = g_mss_spi0_lo s
   \<and> (g_mss_spi1_lo t)\<lparr>resp_tx_buffer := None, resp_buff_size := 0\<rparr>
       = (g_mss_spi1_lo s)\<lparr>resp_tx_buffer := None, resp_buff_size := 0\<rparr>
   \<and> periph_spi0 t = periph_spi0 s
   \<and> periph_spi1 t = periph_spi1 s"

text \<open>
  The reply the controller captures for a frame sent from state \<open>s\<close>: the content of its
  receive buffer after the transfer the loop performs, with \<open>frame\<close> as command buffer.
\<close>

definition reply_to :: "sys_state \<Rightarrow> u8 list \<Rightarrow> u8 list option" where
  "reply_to s frame =
     map_option g_master_rx_buffer
       (MSS_SPI_transfer_block s SPI0_LO frame (COMMAND_BYTE_SIZE + NB_OF_TURNAROUND_BYTES)
          (of_nat (length (g_master_rx_buffer s))))"

section \<open>Auxiliary facts\<close>

subsection \<open>Rows of the table, command comparison\<close>

lemma take_drop_concat_row:
  "\<forall>r \<in> set t. length r = k \<Longrightarrow> i < length t \<Longrightarrow> take k (drop (i * k) (concat t)) = t ! i"
proof (induction t arbitrary: i)
  case Nil
  then show ?case by simp
next
  case (Cons r t)
  show ?case
  proof (cases i)
    case 0
    with Cons.prems show ?thesis by simp
  next
    case (Suc j)
    with Cons.prems have "take k (drop (j * k) (concat t)) = t ! j"
      by (intro Cons.IH) auto
    with Suc Cons.prems show ?thesis by (simp add: add.commute)
  qed
qed

lemma length_concat_rows:
  "\<forall>r \<in> set t. length r = k \<Longrightarrow> length (concat t) = length t * k"
  by (induction t) auto

lemma row_read:
  assumes "configured s" "i < length (g_slave_tx_buffer s)"
  shows "read_slave_tx s (Slave_tx_at i 0) (unat SLAVE_PACKET_LENGTH) = g_slave_tx_buffer s ! i"
  using assms take_drop_concat_row [of "g_slave_tx_buffer s" "unat SLAVE_PACKET_LENGTH" i]
  by (simp add: configured_def list_all_iff)

lemma unat_ucast_u8_u32: "unat (ucast (i::u8) :: u32) = unat i"
proof -
  have "unat i < 2 ^ 8"
    using unsigned_less [of i, where 'a = nat] by simp
  then have "unat i < 2 ^ 32"
    by simp
  then have "take_bit 32 (unat i) = unat i"
    by (simp add: take_bit_nat_eq_self)
  then show ?thesis
    by (simp add: unsigned_ucast_eq)
qed

lemma u8_lt4: "(ucast (i::u8) :: u32) < 4 \<longleftrightarrow> unat i < 4"
  by (simp add: word_less_nat_alt unat_ucast_u8_u32)

lemma handler_eq:
  "spi1_slave_cmd_handler s (i # rest) n =
     Some (MSS_SPI_set_cmd_response s SPI1_LO (Slave_tx_at (if unat i < 4 then unat i else 0) 0) SLAVE_PACKET_LENGTH)"
  by (simp add: spi1_slave_cmd_handler_def SLAVE_NB_OF_COMMANDS_def u8_lt4)

lemma set_cmd_response_sel [simp]:
  "g_slave_tx_buffer (MSS_SPI_set_cmd_response s SPI1_LO p n) = g_slave_tx_buffer s"
  "g_master_tx_buffer (MSS_SPI_set_cmd_response s SPI1_LO p n) = g_master_tx_buffer s"
  "g_master_rx_buffer (MSS_SPI_set_cmd_response s SPI1_LO p n) = g_master_rx_buffer s"
  "g_slave_rx_buffer (MSS_SPI_set_cmd_response s SPI1_LO p n) = g_slave_rx_buffer s"
  "cmd_idx (MSS_SPI_set_cmd_response s SPI1_LO p n) = cmd_idx s"
  "g_mss_spi0_lo (MSS_SPI_set_cmd_response s SPI1_LO p n) = g_mss_spi0_lo s"
  "g_mss_spi1_lo (MSS_SPI_set_cmd_response s SPI1_LO p n) =
     (g_mss_spi1_lo s)\<lparr>resp_tx_buffer := Some p, resp_buff_size := n\<rparr>"
  "periph_spi0 (MSS_SPI_set_cmd_response s SPI1_LO p n) = periph_spi0 s"
  "periph_spi1 (MSS_SPI_set_cmd_response s SPI1_LO p n) = periph_spi1 s"
  "calls (MSS_SPI_set_cmd_response s SPI1_LO p n) = calls s @ [Call_MSS_SPI_set_cmd_response SPI1_LO p n]"
  by (simp_all add: MSS_SPI_set_cmd_response_def set_spi_def get_spi_def log_call_def)

lemma staged_after_response:
  "staged_reply (MSS_SPI_set_cmd_response s SPI1_LO p n) = read_slave_tx s p (unat n)"
  by (cases p) (simp add: staged_reply_def)


lemma row_inside:
  assumes "configured s" "i < length (g_slave_tx_buffer s)"
  shows "inside_table s (Slave_tx_at i 0) (unat SLAVE_PACKET_LENGTH)"
proof -
  have "length (concat (g_slave_tx_buffer s)) = length (g_slave_tx_buffer s) * unat SLAVE_PACKET_LENGTH"
    using assms(1) by (intro length_concat_rows) (simp add: configured_def list_all_iff)
  moreover have "i * unat SLAVE_PACKET_LENGTH + unat SLAVE_PACKET_LENGTH \<le> length (g_slave_tx_buffer s) * unat SLAVE_PACKET_LENGTH"
    using assms(2) by (metis Suc_leI mult_Suc mult_le_mono1 add.commute)
  ultimately show ?thesis by simp
qed

lemma configured_response [simp]:
  "configured (MSS_SPI_set_cmd_response s SPI1_LO p n) = configured s"
  by (simp add: configured_def)

lemma transfer_configured:
  assumes "configured s" "length fill = unat NB_OF_TURNAROUND_BYTES"
  shows "MSS_SPI_transfer_block s SPI0_LO (i # fill)
           (COMMAND_BYTE_SIZE + NB_OF_TURNAROUND_BYTES) (of_nat (length (g_master_rx_buffer s)))
         = Some ((MSS_SPI_set_cmd_response
                   (log_call (Call_MSS_SPI_transfer_block SPI0_LO (i # fill) 5 8) s)
                   SPI1_LO (Slave_tx_at (if unat i < 4 then unat i else 0) 0) SLAVE_PACKET_LENGTH)
                 \<lparr>g_master_rx_buffer := g_slave_tx_buffer s ! (if unat i < 4 then unat i else 0)\<rparr>)"
proof -
  let ?j = "if unat i < 4 then unat i else 0"
  let ?s1 = "log_call (Call_MSS_SPI_transfer_block SPI0_LO (i # fill) 5 8) s"
  let ?s2 = "MSS_SPI_set_cmd_response ?s1 SPI1_LO (Slave_tx_at ?j 0) SLAVE_PACKET_LENGTH"
  have c1: "configured ?s1"
    using assms(1) by (simp add: configured_def log_call_def)
  have j: "?j < length (g_slave_tx_buffer ?s1)"
    using c1 by (simp add: configured_def SLAVE_NB_OF_COMMANDS_def)
  have ev: "command_event ?s1 (i # fill) = Some ?s2"
    using c1 by (simp add: command_event_def configured_def COMMAND_BYTE_SIZE_def
        run_block_callback_def handler_eq)
  have rd: "staged_reply ?s2 = g_slave_tx_buffer s ! ?j"
    using row_read [OF c1 j] by (simp add: staged_after_response log_call_def)
  have len: "length (g_slave_tx_buffer s ! ?j) = 8"
    using assms(1) j by (simp add: configured_def list_all_length SLAVE_PACKET_LENGTH_def log_call_def)
  have fe: "frame_event (?s2\<lparr>g_master_rx_buffer := g_slave_tx_buffer s ! ?j\<rparr>) (i # fill)
              = Some (?s2\<lparr>g_master_rx_buffer := g_slave_tx_buffer s ! ?j\<rparr>)"
    using c1 by (simp add: frame_event_def configured_def run_block_callback_def
        spi1_block_rx_handler_def)
  have rx8: "length (g_master_rx_buffer s) = 8"
    using assms(1) by (simp add: configured_def SLAVE_PACKET_LENGTH_def)
  show ?thesis
    using assms(2) rx8 ev rd len fe
    by (simp add: MSS_SPI_transfer_block_def COMMAND_BYTE_SIZE_def NB_OF_TURNAROUND_BYTES_def
        Let_def log_call_def)
qed

subsection \<open>The state after initialisation\<close>

lemmas driver_defs =
  mss_config_clk_rst_def PLIC_init_def enable_irq_def PLIC_SetPriority_def MSS_SPI_init_def
  MSS_SPI_configure_master_mode_def MSS_SPI_configure_slave_mode_def
  MSS_SPI_set_slave_block_buffers_def MSS_SPI_set_cmd_handler_def
  MSS_SPI_set_slave_select_def MSS_SPI_clear_slave_select_def
  log_call_def set_spi_def get_spi_def

lemmas macro_defs =
  COMMAND_BYTE_SIZE_def NB_OF_TURNAROUND_BYTES_def SLAVE_NB_OF_COMMANDS_def
  SLAVE_PACKET_LENGTH_def MPFS_HAL_FIRST_HART_def

lemma init_configured: "configured (u54_1_init boot_state)"
  by (simp add: configured_def u54_1_init_def boot_state_def blank_instance_def
      driver_defs macro_defs Let_def)

lemma init_table:
  "g_slave_tx_buffer (u54_1_init s0) = g_slave_tx_buffer s0"
  by (simp add: u54_1_init_def driver_defs Let_def)

lemma boot_table:
  "g_slave_tx_buffer boot_state =
     [[0x01, 0x02, 0x03, 0x04, 0x05, 0x06, 0x07, 0x08],
      [0x11, 0x12, 0x13, 0x14, 0x15, 0x16, 0x17, 0x18],
      [0x21, 0x22, 0x23, 0x24, 0x25, 0x26, 0x27, 0x28],
      [0x31, 0x32, 0x33, 0x34, 0x35, 0x36, 0x37, 0x38]]"
  by (simp add: boot_state_def)

subsection \<open>The loop\<close>

lemma next_cmd_idx:
  "(if (3 :: u32) = ucast (of_nat (k mod 4) :: u8) then 0 else of_nat (k mod 4) + 1)
     = (of_nat (Suc k mod 4) :: u8)"
proof -
  consider "k mod 4 = 0" | "k mod 4 = 1" | "k mod 4 = 2" | "k mod 4 = 3"
    by arith
  then show ?thesis
    by cases (simp_all add: mod_Suc)
qed

lemma transfers_append: "transfers (xs @ ys) = transfers xs @ transfers ys"
  by (induction xs rule: transfers.induct) simp_all

lemma switched_append: "switched (xs @ ys) = switched xs @ switched ys"
  by (induction xs rule: switched.induct) simp_all

lemma loop_body_at_cycle:
  assumes "at_cycle k s"
  shows "\<exists>s'. u54_1_loop_body s = Some s' \<and> at_cycle (Suc k) s'
           \<and> g_slave_tx_buffer s' = g_slave_tx_buffer s
           \<and> g_master_rx_buffer s' = g_slave_tx_buffer s ! (k mod 4)
           \<and> transfers (calls s') =
               transfers (calls s) @ [([of_nat (k mod 4), 0x01, 0x02, 0x03, 0xAA], 5, 8)]
           \<and> switched (calls s') = switched (calls s)"
proof -
  let ?c = "of_nat (k mod 4) :: u8"
  let ?s1 = "MSS_SPI_set_slave_select s SPI0_LO MSS_SPI_SLAVE_1"
  have c1: "configured ?s1"
    using assms by (simp add: at_cycle_def configured_def driver_defs)
  have tx: "g_master_tx_buffer ?s1 = ?c # [0x01, 0x02, 0x03, 0xAA]"
    using assms by (simp add: at_cycle_def driver_defs)
  have fl: "length [0x01, 0x02, 0x03, 0xAA :: u8] = unat NB_OF_TURNAROUND_BYTES"
    by (simp add: macro_defs)
  have un: "unat ?c = k mod 4"
    by (simp add: unat_of_nat take_bit_nat_eq_self)
  note tr = transfer_configured [OF c1 fl, of ?c]
  show ?thesis
    using assms next_cmd_idx [of k] 
    apply (simp add: u54_1_loop_body_def tx tr un Let_def del: of_nat_Suc)
    apply (auto simp add: at_cycle_def configured_def driver_defs transfers_append
        switched_append list_all_length macro_defs simp del: of_nat_Suc split: if_splits)
    done
qed


lemma upt_0_Suc_map: "map f [0..<Suc n] = f 0 # map (\<lambda>j. f (Suc j)) [0..<n]"
proof -
  have "[0..<Suc n] = 0 # map Suc [0..<n]"
    by (simp add: upt_conv_Cons map_Suc_upt del: upt_Suc)
  then show ?thesis
    by (simp add: comp_def del: upt_Suc)
qed

lemma cycles_at_cycle:
  "at_cycle k s \<Longrightarrow>
   \<exists>s'. u54_1_cycles n s = Some s' \<and> at_cycle (k + n) s'
        \<and> g_slave_tx_buffer s' = g_slave_tx_buffer s
        \<and> transfers (calls s') =
            transfers (calls s)
            @ map (\<lambda>j. ([of_nat ((k + j) mod 4), 0x01, 0x02, 0x03, 0xAA], 5, 8)) [0..<n]
        \<and> switched (calls s') = switched (calls s)"
proof (induction n arbitrary: k s)
  case 0
  then show ?case by simp
next
  case (Suc n)
  from loop_body_at_cycle [OF Suc.prems] obtain s1 where
    b: "u54_1_loop_body s = Some s1" and a: "at_cycle (Suc k) s1"
    and t: "g_slave_tx_buffer s1 = g_slave_tx_buffer s"
    and f: "transfers (calls s1) =
              transfers (calls s) @ [([of_nat (k mod 4), 0x01, 0x02, 0x03, 0xAA], 5, 8)]"
    and w: "switched (calls s1) = switched (calls s)"
    by blast
  from Suc.IH [OF a] obtain s' where
    c: "u54_1_cycles n s1 = Some s'" and a': "at_cycle (Suc k + n) s'"
    and t': "g_slave_tx_buffer s' = g_slave_tx_buffer s1"
    and f': "transfers (calls s') =
               transfers (calls s1)
               @ map (\<lambda>j. ([of_nat ((Suc k + j) mod 4), 0x01, 0x02, 0x03, 0xAA], 5, 8)) [0..<n]"
    and w': "switched (calls s') = switched (calls s1)"
    by blast
  have "u54_1_cycles (Suc n) s = Some s'"
    using b c by simp
  moreover have "at_cycle (k + Suc n) s'"
    using a' by simp
  moreover have "transfers (calls s') =
      transfers (calls s)
      @ map (\<lambda>j. ([of_nat ((k + j) mod 4), 0x01, 0x02, 0x03, 0xAA], 5, 8)) [0..<Suc n]"
    unfolding f' f upt_0_Suc_map by simp
  ultimately show ?case
    using t t' w w' by simp
qed

lemma init_at_cycle: "at_cycle 0 (u54_1_init boot_state)"
  using init_configured
  by (simp add: at_cycle_def u54_1_init_def boot_state_def driver_defs Let_def)

lemma init_transfers: "transfers (calls (u54_1_init boot_state)) = []"
  by (simp add: u54_1_init_def boot_state_def driver_defs Let_def)

lemma u54_1_run:
  "\<exists>s. u54_1 n = Some s \<and> at_cycle n s
       \<and> g_slave_tx_buffer s = g_slave_tx_buffer boot_state
       \<and> transfers (calls s) =
           map (\<lambda>j. ([of_nat (j mod 4), 0x01, 0x02, 0x03, 0xAA], 5, 8)) [0..<n]"
  using cycles_at_cycle [OF init_at_cycle, of n]
  by (auto simp add: u54_1_def init_transfers init_table)

lemma handler_result:
  "spi1_slave_cmd_handler s rx n = Some s' \<Longrightarrow>
   \<exists>p. s' = MSS_SPI_set_cmd_response s SPI1_LO p SLAVE_PACKET_LENGTH"
  by (cases rx) (auto simp add: spi1_slave_cmd_handler_def Let_def)

subsection \<open>Independence from the call log and the peripheral state\<close>

text \<open>
  No function reads the call log or the clock/reset state: run from a state that differs
  only there, each one logs the same calls and produces the same protocol state.
\<close>

lemma response_rebase:
  "MSS_SPI_set_cmd_response (s\<lparr>periph_spi0 := a, periph_spi1 := b, calls := cs\<rparr>) i p n =
     (MSS_SPI_set_cmd_response s i p n)
       \<lparr>periph_spi0 := a, periph_spi1 := b,
        calls := cs @ drop (length (calls s)) (calls (MSS_SPI_set_cmd_response s i p n))\<rparr>"
  by (cases i) (simp_all add: MSS_SPI_set_cmd_response_def driver_defs)

lemma callback_rebase:
  "run_block_callback h (s\<lparr>periph_spi0 := a, periph_spi1 := b, calls := cs\<rparr>) rx n =
     map_option (\<lambda>t. t\<lparr>periph_spi0 := a, periph_spi1 := b,
                        calls := cs @ drop (length (calls s)) (calls t)\<rparr>)
       (run_block_callback h s rx n)"
  by (cases h; cases rx)
     (simp_all add: run_block_callback_def spi1_slave_cmd_handler_def
        spi1_block_rx_handler_def response_rebase Let_def)

lemma command_event_rebase:
  "command_event (s\<lparr>periph_spi0 := a, periph_spi1 := b, calls := cs\<rparr>) frame =
     map_option (\<lambda>t. t\<lparr>periph_spi0 := a, periph_spi1 := b,
                        calls := cs @ drop (length (calls s)) (calls t)\<rparr>)
       (command_event s frame)"
  by (cases "cmd_handler (g_mss_spi1_lo s)")
     (simp_all add: command_event_def callback_rebase Let_def)

lemma frame_event_rebase:
  "frame_event (s\<lparr>periph_spi0 := a, periph_spi1 := b, calls := cs\<rparr>) frame =
     map_option (\<lambda>t. t\<lparr>periph_spi0 := a, periph_spi1 := b,
                        calls := cs @ drop (length (calls s)) (calls t)\<rparr>)
       (frame_event s frame)"
  by (cases "block_rx_handler (g_mss_spi1_lo s)")
     (simp_all add: frame_event_def callback_rebase Let_def)

lemma read_rebase:
  "read_slave_tx (s\<lparr>periph_spi0 := a, periph_spi1 := b, calls := cs\<rparr>) p n = read_slave_tx s p n"
  by (cases p) simp

lemma staged_reply_rebase:
  "staged_reply (s\<lparr>periph_spi0 := a, periph_spi1 := b, calls := cs\<rparr>) = staged_reply s"
  by (simp add: staged_reply_def read_rebase split: option.split)

lemma callback_calls:
  "run_block_callback h s rx n = Some t \<Longrightarrow> \<exists>d. calls t = calls s @ d"
  by (cases h; cases rx)
     (auto simp add: run_block_callback_def spi1_slave_cmd_handler_def
        spi1_block_rx_handler_def MSS_SPI_set_cmd_response_def driver_defs Let_def)

lemma command_event_calls:
  "command_event s frame = Some t \<Longrightarrow> \<exists>d. calls t = calls s @ d"
  by (cases "cmd_handler (g_mss_spi1_lo s)")
     (auto simp add: command_event_def Let_def dest: callback_calls split: if_splits)

lemma frame_event_calls:
  "frame_event s frame = Some t \<Longrightarrow> \<exists>d. calls t = calls s @ d"
  by (cases "block_rx_handler (g_mss_spi1_lo s)")
     (auto simp add: frame_event_def dest: callback_calls)

lemma rx_update_inward:
  "s\<lparr>periph_spi0 := a, periph_spi1 := b, calls := cs, g_master_rx_buffer := r\<rparr>
     = s\<lparr>g_master_rx_buffer := r, periph_spi0 := a, periph_spi1 := b, calls := cs\<rparr>"
  by (cases s) simp

lemma transfer_rebase:
  "MSS_SPI_transfer_block (s\<lparr>periph_spi0 := a, periph_spi1 := b, calls := cs\<rparr>) i buf n m =
     map_option (\<lambda>t. t\<lparr>periph_spi0 := a, periph_spi1 := b,
                        calls := cs @ drop (length (calls s)) (calls t)\<rparr>)
       (MSS_SPI_transfer_block s i buf n m)"
proof (cases "length buf < unat n \<or> length (g_master_rx_buffer s) < unat m")
  case True
  then show ?thesis
    by (auto simp add: MSS_SPI_transfer_block_def)
next
  case False
  let ?c = "Call_MSS_SPI_transfer_block i (take (unat n) buf) n m"
  let ?fr = "take (unat n) buf"
  have l: "log_call ?c (s\<lparr>periph_spi0 := a, periph_spi1 := b, calls := cs\<rparr>)
             = (log_call ?c s)\<lparr>periph_spi0 := a, periph_spi1 := b, calls := cs @ [?c]\<rparr>"
    by (simp add: log_call_def)
  show ?thesis
  proof (cases "command_event (log_call ?c s) ?fr")
    case None
    with False show ?thesis
      by (simp add: MSS_SPI_transfer_block_def Let_def l command_event_rebase)
  next
    case (Some s2)
    from command_event_calls [OF Some] obtain d where d: "calls s2 = calls s @ ?c # d"
      by (auto simp add: log_call_def)
    have len: "length (calls (log_call ?c s)) = Suc (length (calls s))"
      by (simp add: log_call_def)
    let ?R = "take (unat m) (staged_reply s2)
              @ drop (length (take (unat m) (staged_reply s2))) (g_master_rx_buffer s2)"
    let ?X = "s2\<lparr>g_master_rx_buffer := ?R\<rparr>"
    have lhs: "MSS_SPI_transfer_block (s\<lparr>periph_spi0 := a, periph_spi1 := b, calls := cs\<rparr>) i buf n m
                 = frame_event (?X\<lparr>periph_spi0 := a, periph_spi1 := b, calls := cs @ ?c # d\<rparr>) ?fr"
      using False Some d len
      by (simp add: MSS_SPI_transfer_block_def Let_def l command_event_rebase
          staged_reply_rebase rx_update_inward)
    have rhs: "MSS_SPI_transfer_block s i buf n m = frame_event ?X ?fr"
      using False Some by (simp add: MSS_SPI_transfer_block_def Let_def)
    show ?thesis
    proof (cases "frame_event ?X ?fr")
      case None
      then show ?thesis
        unfolding lhs rhs frame_event_rebase by simp
    next
      case (Some t)
      from frame_event_calls [OF Some] obtain e where e: "calls t = calls s @ ?c # d @ e"
        using d by auto
      show ?thesis
        unfolding lhs rhs frame_event_rebase using Some e d by simp
    qed
  qed
qed

lemma transfer_calls:
  "MSS_SPI_transfer_block s i buf n m = Some t \<Longrightarrow> \<exists>d. calls t = calls s @ d"
  by (auto simp add: MSS_SPI_transfer_block_def Let_def log_call_def
      split: if_splits option.splits dest!: command_event_calls frame_event_calls)

lemma loop_body_rebase:
  "u54_1_loop_body (s\<lparr>periph_spi0 := a, periph_spi1 := b, calls := cs\<rparr>) =
     map_option (\<lambda>t. t\<lparr>periph_spi0 := a, periph_spi1 := b,
                        calls := cs @ drop (length (calls s)) (calls t)\<rparr>)
       (u54_1_loop_body s)"
proof -
  let ?c = "Call_MSS_SPI_set_slave_select SPI0_LO MSS_SPI_SLAVE_1"
  let ?s1 = "MSS_SPI_set_slave_select s SPI0_LO MSS_SPI_SLAVE_1"
  let ?n = "COMMAND_BYTE_SIZE + NB_OF_TURNAROUND_BYTES"
  let ?m = "of_nat (length (g_master_rx_buffer s)) :: u32"
  have l: "MSS_SPI_set_slave_select (s\<lparr>periph_spi0 := a, periph_spi1 := b, calls := cs\<rparr>)
             SPI0_LO MSS_SPI_SLAVE_1
           = ?s1\<lparr>periph_spi0 := a, periph_spi1 := b, calls := cs @ [?c]\<rparr>"
    by (simp add: driver_defs)
  show ?thesis
  proof (cases "MSS_SPI_transfer_block ?s1 SPI0_LO (g_master_tx_buffer s) ?n ?m")
    case None
    then show ?thesis
      by (simp add: u54_1_loop_body_def Let_def l transfer_rebase)
         (simp add: driver_defs Let_def)
  next
    case (Some s2)
    from transfer_calls [OF Some] obtain d where d: "calls s2 = calls s @ ?c # d"
      by (auto simp add: driver_defs)
    from Some d show ?thesis
      by (simp add: u54_1_loop_body_def Let_def l transfer_rebase)
         (simp add: driver_defs Let_def)
  qed
qed

subsection \<open>What a transfer and a pass of the loop leave alone\<close>

lemma only_staging_refl: "only_staging s s"
  by (simp add: only_staging_def)

lemma only_staging_trans: "only_staging s t \<Longrightarrow> only_staging t u \<Longrightarrow> only_staging s u"
  by (simp add: only_staging_def)

lemma callback_only_staging:
  "run_block_callback h s rx n = Some t \<Longrightarrow>
   only_staging s t \<and> g_master_rx_buffer t = g_master_rx_buffer s"
  by (cases h; cases rx)
     (auto simp add: run_block_callback_def spi1_slave_cmd_handler_def
        spi1_block_rx_handler_def only_staging_def Let_def)

lemma command_event_only_staging:
  "command_event s frame = Some t \<Longrightarrow>
   only_staging s t \<and> g_master_rx_buffer t = g_master_rx_buffer s"
  by (cases "cmd_handler (g_mss_spi1_lo s)")
     (auto simp add: command_event_def Let_def only_staging_refl
        dest: callback_only_staging split: if_splits)

lemma frame_event_only_staging:
  "frame_event s frame = Some t \<Longrightarrow>
   only_staging s t \<and> g_master_rx_buffer t = g_master_rx_buffer s"
  by (cases "block_rx_handler (g_mss_spi1_lo s)")
     (auto simp add: frame_event_def only_staging_refl dest: callback_only_staging)

lemma transfer_only_staging:
  assumes "MSS_SPI_transfer_block s i buf n m = Some t"
  shows "only_staging s t \<and> length (g_master_rx_buffer t) = length (g_master_rx_buffer s)"
proof -
  let ?s1 = "log_call (Call_MSS_SPI_transfer_block i (take (unat n) buf) n m) s"
  from assms have ok: "unat m \<le> length (g_master_rx_buffer s)"
    by (simp add: MSS_SPI_transfer_block_def split: if_splits)
  from assms obtain s2 where
    ce: "command_event ?s1 (take (unat n) buf) = Some s2"
    and fe: "frame_event
               (s2\<lparr>g_master_rx_buffer :=
                     take (unat m) (staged_reply s2)
                     @ drop (length (take (unat m) (staged_reply s2))) (g_master_rx_buffer s2)\<rparr>)
               (take (unat n) buf) = Some t"
    by (auto simp add: MSS_SPI_transfer_block_def Let_def split: if_splits option.splits)
  have 1: "only_staging s ?s1" "g_master_rx_buffer ?s1 = g_master_rx_buffer s"
    by (simp_all add: only_staging_def log_call_def)
  note 2 = command_event_only_staging [OF ce]
  note 3 = frame_event_only_staging [OF fe]
  have "only_staging s t"
    using 1 2 3 by (simp add: only_staging_def)
  moreover have "length (g_master_rx_buffer t) = length (g_master_rx_buffer s)"
    using 1 2 3 ok by auto
  ultimately show ?thesis by simp
qed

lemma tl_update_first: "tl (xs[0 := v]) = tl xs"
  by (cases xs) simp_all

lemma loop_body_frame:
  assumes "u54_1_loop_body s = Some s'"
  shows "drop 1 (g_master_tx_buffer s') = drop 1 (g_master_tx_buffer s)"
    and "length (g_master_tx_buffer s') = length (g_master_tx_buffer s)"
    and "g_slave_tx_buffer s' = g_slave_tx_buffer s"
    and "length (g_master_rx_buffer s') = length (g_master_rx_buffer s)"
proof -
  let ?s1 = "MSS_SPI_set_slave_select s SPI0_LO MSS_SPI_SLAVE_1"
  from assms obtain s2 where
    tr: "MSS_SPI_transfer_block ?s1 SPI0_LO (g_master_tx_buffer ?s1)
           (COMMAND_BYTE_SIZE + NB_OF_TURNAROUND_BYTES)
           (of_nat (length (g_master_rx_buffer ?s1))) = Some s2"
    by (auto simp add: u54_1_loop_body_def Let_def split: option.splits)
  note k = transfer_only_staging [OF tr]
  from assms tr have s': "s' =
      (let s3 = MSS_SPI_clear_slave_select s2 SPI0_LO MSS_SPI_SLAVE_1;
           s4 = (if (3 :: u32) = ucast (cmd_idx s3)
                 then s3\<lparr>cmd_idx := 0\<rparr>
                 else s3\<lparr>cmd_idx := cmd_idx s3 + 1\<rparr>)
       in s4\<lparr>g_master_tx_buffer := (g_master_tx_buffer s4)[0 := cmd_idx s4]\<rparr>)"
    by (simp add: u54_1_loop_body_def Let_def)
  show "drop 1 (g_master_tx_buffer s') = drop 1 (g_master_tx_buffer s)"
    using k by (simp add: s' Let_def only_staging_def driver_defs drop_Suc tl_update_first)
  show "length (g_master_tx_buffer s') = length (g_master_tx_buffer s)"
    using k by (simp add: s' Let_def only_staging_def driver_defs)
  show "g_slave_tx_buffer s' = g_slave_tx_buffer s"
    using k by (simp add: s' Let_def only_staging_def driver_defs)
  show "length (g_master_rx_buffer s') = length (g_master_rx_buffer s)"
    using k by (simp add: s' Let_def only_staging_def driver_defs)
qed

subsection \<open>Replies in a configured state, passes of the loop one at a time\<close>

lemma reply_configured:
  assumes "configured s"
  shows "reply_to s [i, a, b, c, d]
           = Some (g_slave_tx_buffer s ! (if unat i < 4 then unat i else 0))"
proof -
  have fl: "length [a, b, c, d] = unat NB_OF_TURNAROUND_BYTES"
    by (simp add: macro_defs)
  show ?thesis
    using transfer_configured [OF assms fl, of i] by (simp add: reply_to_def)
qed

lemma cycles_snoc:
  "u54_1_cycles (Suc n) s = Option.bind (u54_1_cycles n s) u54_1_loop_body"
proof (induction n arbitrary: s)
  case 0
  show ?case by (cases "u54_1_loop_body s") simp_all
next
  case (Suc n)
  show ?case
  proof (cases "u54_1_loop_body s")
    case None
    then show ?thesis by simp
  next
    case (Some s1)
    have "u54_1_cycles (Suc (Suc n)) s = u54_1_cycles (Suc n) s1"
      using Some by simp
    also have "\<dots> = Option.bind (u54_1_cycles n s1) u54_1_loop_body"
      by (rule Suc.IH)
    also have "u54_1_cycles n s1 = u54_1_cycles (Suc n) s"
      using Some by simp
    finally show ?thesis .
  qed
qed

subsection \<open>The overflow handler\<close>

lemma overflow_handler_eq:
  "mss_spi_overflow_handler s core =
     (if core \<noteq> 0
      then s\<lparr>periph_spi0 := periph_spi0 s, periph_spi1 := PERIPHERAL_ON,
             calls := calls s @ [Call_mss_config_clk_rst MSS_PERIPH_SPI1 MPFS_HAL_FIRST_HART
                                   PERIPHERAL_ON]\<rparr>
      else s\<lparr>periph_spi0 := PERIPHERAL_ON, periph_spi1 := periph_spi1 s,
             calls := calls s @ [Call_mss_config_clk_rst MSS_PERIPH_SPI0 MPFS_HAL_FIRST_HART
                                   PERIPHERAL_ON]\<rparr>)"
  by (cases s) (simp add: mss_spi_overflow_handler_def mss_config_clk_rst_def log_call_def)

lemma loop_body_calls:
  "u54_1_loop_body s = Some t \<Longrightarrow> \<exists>d. calls t = calls s @ d"
  by (auto simp add: u54_1_loop_body_def Let_def driver_defs
      split: option.splits dest!: transfer_calls)

lemma view_rebase:
  "protocol_view (t\<lparr>periph_spi0 := a, periph_spi1 := b, calls := cs\<rparr>) = protocol_view t"
  by (simp add: protocol_view_def)

section \<open>Responder dispatch\<close>

text \<open>
  Claim C1.  For every command byte \<open>i\<close> below the number of table rows, the command
  handler, called on the command prefix of a frame, stages the pointer to row \<open>i\<close> of
  the response table with the packet length, so that the staged bytes are row \<open>i\<close>;
  and a framed transfer whose command byte is \<open>i\<close> leaves exactly row \<open>i\<close>, eight
  bytes, in the controller's receive buffer, whatever had been staged before.
\<close>

theorem cmd_handler_stages_row:
  assumes "configured s"
    and "unat i < unat SLAVE_NB_OF_COMMANDS"
    and "length fill = unat NB_OF_TURNAROUND_BYTES"
  shows "map_option
           (\<lambda>s'. (resp_tx_buffer (g_mss_spi1_lo s'), resp_buff_size (g_mss_spi1_lo s'),
                  staged_reply s'))
           (spi1_slave_cmd_handler s (i # rest) rx_size)
         = Some (Some (Slave_tx_at (unat i) 0), SLAVE_PACKET_LENGTH,
                 g_slave_tx_buffer s ! unat i)
       \<and> reply_to s (i # fill) = Some (g_slave_tx_buffer s ! unat i)
       \<and> length (g_slave_tx_buffer s ! unat i) = unat SLAVE_PACKET_LENGTH"
proof -
  have i4: "unat i < 4"
    using assms(2) by (simp add: SLAVE_NB_OF_COMMANDS_def)
  then have row: "unat i < length (g_slave_tx_buffer s)"
    using assms(1) by (simp add: configured_def SLAVE_NB_OF_COMMANDS_def)
  show ?thesis
    using i4 row_read [OF assms(1) row] transfer_configured [OF assms(1) assms(3), of i]
      assms(1) row
    by (simp add: handler_eq staged_after_response configured_def list_all_length reply_to_def)
qed

theorem cmd_handler_stages_row_witness:
  "configured (u54_1_init boot_state)
   \<and> unat (2 :: u8) < unat SLAVE_NB_OF_COMMANDS
   \<and> length [0x01, 0x02, 0x03, 0xAA :: u8] = unat NB_OF_TURNAROUND_BYTES
   \<and> reply_to (u54_1_init boot_state) [2, 0x01, 0x02, 0x03, 0xAA]
      = Some [0x21, 0x22, 0x23, 0x24, 0x25, 0x26, 0x27, 0x28]"
proof -
  have h2: "unat (2 :: u8) < unat SLAVE_NB_OF_COMMANDS"
    by (simp add: SLAVE_NB_OF_COMMANDS_def)
  have h3: "length [0x01, 0x02, 0x03, 0xAA :: u8] = unat NB_OF_TURNAROUND_BYTES"
    by (simp add: NB_OF_TURNAROUND_BYTES_def)
  show ?thesis
    using h2 h3 cmd_handler_stages_row [OF init_configured h2 h3]
    by (simp add: init_configured init_table boot_table)
qed

text \<open>
  Claim C2.  For every command byte \<open>i\<close> at or above the number of table rows, the
  command handler returns and stages the pointer to row 0 with the packet length; the
  staged bytes are row 0 and lie inside the table; and a framed transfer with such a
  command byte completes with row 0, eight bytes, in the controller's receive buffer.
\<close>

theorem cmd_handler_fallback:
  assumes "configured s"
    and "unat SLAVE_NB_OF_COMMANDS \<le> unat i"
    and "length fill = unat NB_OF_TURNAROUND_BYTES"
  shows "map_option
           (\<lambda>s'. (resp_tx_buffer (g_mss_spi1_lo s'), resp_buff_size (g_mss_spi1_lo s'),
                  staged_reply s',
                  inside_table s' (Slave_tx_at 0 0) (unat SLAVE_PACKET_LENGTH)))
           (spi1_slave_cmd_handler s (i # rest) rx_size)
         = Some (Some (Slave_tx_at 0 0), SLAVE_PACKET_LENGTH, g_slave_tx_buffer s ! 0, True)
       \<and> reply_to s (i # fill) = Some (g_slave_tx_buffer s ! 0)
       \<and> length (g_slave_tx_buffer s ! 0) = unat SLAVE_PACKET_LENGTH"
proof -
  have i4: "\<not> unat i < 4"
    using assms(2) by (simp add: SLAVE_NB_OF_COMMANDS_def)
  have row: "0 < length (g_slave_tx_buffer s)"
    using assms(1) by (simp add: configured_def SLAVE_NB_OF_COMMANDS_def)
  have ins: "inside_table (MSS_SPI_set_cmd_response s SPI1_LO (Slave_tx_at 0 0)
               SLAVE_PACKET_LENGTH) (Slave_tx_at 0 0) (unat SLAVE_PACKET_LENGTH)"
    using row_inside [OF assms(1) row] by simp
  show ?thesis
    using i4 ins row_read [OF assms(1) row] transfer_configured [OF assms(1) assms(3), of i]
      assms(1) row
    by (simp add: handler_eq staged_after_response configured_def list_all_length reply_to_def)
qed

theorem cmd_handler_fallback_witness:
  "configured (u54_1_init boot_state)
   \<and> unat SLAVE_NB_OF_COMMANDS \<le> unat (255 :: u8)
   \<and> length [0x01, 0x02, 0x03, 0xAA :: u8] = unat NB_OF_TURNAROUND_BYTES
   \<and> reply_to (u54_1_init boot_state) [255, 0x01, 0x02, 0x03, 0xAA]
      = Some [0x01, 0x02, 0x03, 0x04, 0x05, 0x06, 0x07, 0x08]"
proof -
  have h2: "unat SLAVE_NB_OF_COMMANDS \<le> unat (255 :: u8)"
    by (simp add: SLAVE_NB_OF_COMMANDS_def)
  have h3: "length [0x01, 0x02, 0x03, 0xAA :: u8] = unat NB_OF_TURNAROUND_BYTES"
    by (simp add: NB_OF_TURNAROUND_BYTES_def)
  show ?thesis
    using h2 h3 cmd_handler_fallback [OF init_configured h2 h3]
    by (simp add: init_configured init_table boot_table)
qed

text \<open>
  Claim C7.  A call of the command handler that returns changes nothing but the staged
  response: the response table, the command index, all four buffers, the controller's
  instance, the rest of the responder's instance and the peripherals are as before, and
  the one call it makes is \<open>MSS_SPI_set_cmd_response\<close> on the responder with the packet
  length.  No function writes the response table: not the initialisation, not the
  overflow handler, and after any number of passes of the program the table holds its
  initial rows.  So two frames with the same command byte, sent after any numbers \<open>n\<close>
  and \<open>m\<close> of passes and with any turnaround bytes, are answered, and with the same
  bytes.
\<close>

theorem cmd_handler_no_side_effect:
  assumes "spi1_slave_cmd_handler s rx_buff rx_size = Some s'"
  shows "only_staging s s'
       \<and> g_master_rx_buffer s' = g_master_rx_buffer s
       \<and> (\<exists>p. new_calls s s' = [Call_MSS_SPI_set_cmd_response SPI1_LO p SLAVE_PACKET_LENGTH])
       \<and> g_slave_tx_buffer (u54_1_init s) = g_slave_tx_buffer s
       \<and> g_slave_tx_buffer (mss_spi_overflow_handler s core) = g_slave_tx_buffer s
       \<and> map_option g_slave_tx_buffer (u54_1 n) = Some (g_slave_tx_buffer boot_state)
       \<and> Option.bind (u54_1 n) (\<lambda>t. reply_to t [i, a, b, c, d])
         = Option.bind (u54_1 m) (\<lambda>t. reply_to t [i, a', b', c', d'])
       \<and> Option.bind (u54_1 n) (\<lambda>t. reply_to t [i, a, b, c, d]) \<noteq> None"
proof -
  from handler_result [OF assms] obtain p where
    p: "s' = MSS_SPI_set_cmd_response s SPI1_LO p SLAVE_PACKET_LENGTH"
    by blast
  have 1: "only_staging s s'" "g_master_rx_buffer s' = g_master_rx_buffer s"
    by (simp_all add: p only_staging_def)
  have 2: "\<exists>p. new_calls s s' = [Call_MSS_SPI_set_cmd_response SPI1_LO p SLAVE_PACKET_LENGTH]"
    by (simp add: p new_calls_def)
  have 3: "g_slave_tx_buffer (mss_spi_overflow_handler s core) = g_slave_tx_buffer s"
    by (simp add: overflow_handler_eq)
  have run: "\<exists>t. u54_1 k = Some t \<and> configured t
                \<and> g_slave_tx_buffer t = g_slave_tx_buffer boot_state" for k
    using u54_1_run [of k] by (auto simp add: at_cycle_def)
  from run [of n] obtain t where t: "u54_1 n = Some t" "configured t"
    "g_slave_tx_buffer t = g_slave_tx_buffer boot_state"
    by blast
  from run [of m] obtain u where u: "u54_1 m = Some u" "configured u"
    "g_slave_tx_buffer u = g_slave_tx_buffer boot_state"
    by blast
  have 4: "map_option g_slave_tx_buffer (u54_1 n) = Some (g_slave_tx_buffer boot_state)"
    using t by simp
  have 5: "Option.bind (u54_1 n) (\<lambda>t. reply_to t [i, a, b, c, d])
         = Option.bind (u54_1 m) (\<lambda>t. reply_to t [i, a', b', c', d'])"
    using t u by (simp add: reply_configured)
  have 6: "Option.bind (u54_1 n) (\<lambda>t. reply_to t [i, a, b, c, d]) \<noteq> None"
    using t by (simp add: reply_configured)
  from 1 2 3 4 5 6 init_table [of s] show ?thesis
    by blast
qed

theorem cmd_handler_no_side_effect_witness:
  "spi1_slave_cmd_handler (u54_1_init boot_state) [2] COMMAND_BYTE_SIZE
     = Some (the (spi1_slave_cmd_handler (u54_1_init boot_state) [2] COMMAND_BYTE_SIZE))
   \<and> g_slave_tx_buffer (the (spi1_slave_cmd_handler (u54_1_init boot_state) [2] COMMAND_BYTE_SIZE))
     = [[0x01, 0x02, 0x03, 0x04, 0x05, 0x06, 0x07, 0x08],
        [0x11, 0x12, 0x13, 0x14, 0x15, 0x16, 0x17, 0x18],
        [0x21, 0x22, 0x23, 0x24, 0x25, 0x26, 0x27, 0x28],
        [0x31, 0x32, 0x33, 0x34, 0x35, 0x36, 0x37, 0x38]]
   \<and> cmd_idx (the (spi1_slave_cmd_handler (u54_1_init boot_state) [2] COMMAND_BYTE_SIZE)) = 0"
proof -
  let ?s = "u54_1_init boot_state"
  have h: "spi1_slave_cmd_handler ?s [2] COMMAND_BYTE_SIZE
             = Some (the (spi1_slave_cmd_handler ?s [2] COMMAND_BYTE_SIZE))"
    by (simp add: handler_eq)
  have c: "cmd_idx ?s = 0"
    using init_at_cycle by (simp add: at_cycle_def)
  from cmd_handler_no_side_effect [OF h]
  have "only_staging ?s (the (spi1_slave_cmd_handler ?s [2] COMMAND_BYTE_SIZE))"
    by blast
  then show ?thesis
    using h c by (simp add: only_staging_def init_table boot_table)
qed

text \<open>
  Claim C9.  The initialisation gives the responder the transmit pointer
  \<open>&g_slave_tx_buffer[0][0]\<close> with the length
  \<open>COMMAND_BYTE_SIZE + NB_OF_TURNAROUND_BYTES\<close> = 5 and stages no command response.  From
  the booted state, what the responder would send before any command handler has run is
  therefore the first five bytes of row 0 of the table, \<open>0x01, \<dots>, 0x05\<close>, not a
  full row; no reply is staged, and the calls made so far are those of the
  initialisation, without a call that sets a command response.
\<close>

theorem initial_slave_transmission:
  "slave_tx_buffer (g_mss_spi1_lo (u54_1_init s0)) = Some (Slave_tx_at 0 0)
   \<and> slave_tx_size (g_mss_spi1_lo (u54_1_init s0)) = COMMAND_BYTE_SIZE + NB_OF_TURNAROUND_BYTES
   \<and> unat (COMMAND_BYTE_SIZE + NB_OF_TURNAROUND_BYTES) = 5
   \<and> resp_tx_buffer (g_mss_spi1_lo (u54_1_init s0)) = resp_tx_buffer (g_mss_spi1_lo s0)
   \<and> default_transmission (u54_1_init s0) = take 5 (concat (g_slave_tx_buffer s0))
   \<and> default_transmission (u54_1_init boot_state) = take 5 (g_slave_tx_buffer boot_state ! 0)
   \<and> default_transmission (u54_1_init boot_state) = [0x01, 0x02, 0x03, 0x04, 0x05]
   \<and> resp_tx_buffer (g_mss_spi1_lo (u54_1_init boot_state)) = None
   \<and> staged_reply (u54_1_init boot_state) = []
   \<and> calls (u54_1_init boot_state) =
       [Call_mss_config_clk_rst MSS_PERIPH_SPI0 MPFS_HAL_FIRST_HART PERIPHERAL_ON,
        Call_mss_config_clk_rst MSS_PERIPH_SPI1 MPFS_HAL_FIRST_HART PERIPHERAL_ON,
        Call_PLIC_init,
        Call_enable_irq,
        Call_PLIC_SetPriority SPI0_PLIC 2,
        Call_PLIC_SetPriority SPI1_PLIC 2,
        Call_MSS_SPI_init SPI0_LO,
        Call_MSS_SPI_configure_master_mode SPI0_LO MSS_SPI_SLAVE_1 MSS_SPI_MODE1 256
          MSS_SPI_BLOCK_TRANSFER_FRAME_SIZE Mss_spi_overflow_handler,
        Call_MSS_SPI_init SPI1_LO,
        Call_MSS_SPI_configure_slave_mode SPI1_LO MSS_SPI_MODE1
          MSS_SPI_BLOCK_TRANSFER_FRAME_SIZE Mss_spi_overflow_handler,
        Call_MSS_SPI_set_slave_block_buffers SPI1_LO (Slave_tx_at 0 0)
          (COMMAND_BYTE_SIZE + NB_OF_TURNAROUND_BYTES) 13 Spi1_block_rx_handler,
        Call_MSS_SPI_set_cmd_handler SPI1_LO Spi1_slave_cmd_handler COMMAND_BYTE_SIZE,
        Call_MSS_SPI_set_slave_select SPI0_LO MSS_SPI_SLAVE_1]"
  by (simp add: u54_1_init_def default_transmission_def staged_reply_def boot_state_def
      blank_instance_def driver_defs macro_defs Let_def)

section \<open>Controller sequencer\<close>

text \<open>
  Claim C3.  Every pass of the loop completes, and over any number \<open>n\<close> of passes the
  command prefixes of the frames sent are \<open>0, 1, 2, 3, 0, 1, 2, 3, \<dots>\<close>: pass \<open>k\<close>
  (counted from 0) sends command \<open>k mod 4\<close>.  After \<open>n\<close> passes the command index and
  the command byte waiting in the transmit buffer are both \<open>n mod 4\<close>, and the command
  index after one more pass is the current one plus 1, modulo 4.
\<close>

theorem command_index_cycles:
  "map_option (\<lambda>s. map (\<lambda>(bs, n, m). take (unat COMMAND_BYTE_SIZE) bs) (transfers (calls s)))
     (u54_1 n)
   = Some (map (\<lambda>k. [of_nat (k mod 4)]) [0..<n])
   \<and> map_option (\<lambda>s. (cmd_idx s, take (unat COMMAND_BYTE_SIZE) (g_master_tx_buffer s))) (u54_1 n)
     = Some (of_nat (n mod 4), [of_nat (n mod 4)])
   \<and> map_option (\<lambda>s. unat (cmd_idx s)) (u54_1 (Suc n))
     = map_option (\<lambda>s. (unat (cmd_idx s) + 1) mod 4) (u54_1 n)"
proof -
  obtain s where s: "u54_1 n = Some s" and a: "at_cycle n s"
    and t: "transfers (calls s) =
              map (\<lambda>j. ([of_nat (j mod 4), 0x01, 0x02, 0x03, 0xAA], 5, 8)) [0..<n]"
    using u54_1_run [of n] by blast
  obtain s' where s': "u54_1 (Suc n) = Some s'" and a': "at_cycle (Suc n) s'"
    using u54_1_run [of "Suc n"] by blast
  have un: "unat (of_nat (k mod 4) :: u8) = k mod 4" for k
    by (simp add: unat_of_nat take_bit_nat_eq_self)
  have "unat (cmd_idx s') = (unat (cmd_idx s) + 1) mod 4"
    using a a' un [of n] un [of "Suc n"]
    by (simp add: at_cycle_def mod_Suc_eq del: of_nat_Suc)
  then show ?thesis
    using s s' a t by (simp add: at_cycle_def COMMAND_BYTE_SIZE_def comp_def)
qed

text \<open>
  Claim C8.  A pass of the loop, from any state it completes from, changes the transmit
  buffer at most at byte 0 and keeps its length.  Over any number \<open>n\<close> of passes of the
  program the frames sent are the five bytes \<open>k mod 4, 0x01, 0x02, 0x03, 0xAA\<close> for
  \<open>k = 0, \<dots>, n - 1\<close>, and the transmit buffer afterwards holds
  \<open>n mod 4, 0x01, 0x02, 0x03, 0xAA\<close>.
\<close>

theorem transmit_frames:
  assumes "u54_1_loop_body s = Some s'"
  shows "drop 1 (g_master_tx_buffer s') = drop 1 (g_master_tx_buffer s)
       \<and> length (g_master_tx_buffer s') = length (g_master_tx_buffer s)
       \<and> map_option (\<lambda>t. (map fst (transfers (calls t)), g_master_tx_buffer t)) (u54_1 n)
         = Some (map (\<lambda>k. [of_nat (k mod 4), 0x01, 0x02, 0x03, 0xAA]) [0..<n],
                 [of_nat (n mod 4), 0x01, 0x02, 0x03, 0xAA])"
proof -
  obtain t where t: "u54_1 n = Some t" and a: "at_cycle n t"
    and f: "transfers (calls t) =
              map (\<lambda>j. ([of_nat (j mod 4), 0x01, 0x02, 0x03, 0xAA], 5, 8)) [0..<n]"
    using u54_1_run [of n] by blast
  have run: "map_option (\<lambda>t. (map fst (transfers (calls t)), g_master_tx_buffer t)) (u54_1 n)
         = Some (map (\<lambda>k. [of_nat (k mod 4), 0x01, 0x02, 0x03, 0xAA]) [0..<n],
                 [of_nat (n mod 4), 0x01, 0x02, 0x03, 0xAA])"
    using t a f by (simp add: at_cycle_def comp_def)
  show ?thesis
    using run loop_body_frame(1,2) [OF assms] by simp
qed

theorem transmit_frames_witness:
  "u54_1_loop_body (u54_1_init boot_state) = Some (the (u54_1_loop_body (u54_1_init boot_state)))
   \<and> drop 1 (g_master_tx_buffer (the (u54_1_loop_body (u54_1_init boot_state))))
       = [0x01, 0x02, 0x03, 0xAA]
   \<and> map_option (\<lambda>t. map fst (transfers (calls t))) (u54_1 2)
       = Some [[0x00, 0x01, 0x02, 0x03, 0xAA], [0x01, 0x01, 0x02, 0x03, 0xAA]]"
proof -
  have h: "u54_1_loop_body (u54_1_init boot_state)
             = Some (the (u54_1_loop_body (u54_1_init boot_state)))"
    using loop_body_at_cycle [OF init_at_cycle] by auto
  have tx: "g_master_tx_buffer (u54_1_init boot_state) = [0x00, 0x01, 0x02, 0x03, 0xAA]"
    using init_at_cycle by (simp add: at_cycle_def)
  have two: "[0..<2] = [0, 1]"
    by (simp add: upt_rec)
  from transmit_frames [OF h, of 2] have
    a: "drop 1 (g_master_tx_buffer (the (u54_1_loop_body (u54_1_init boot_state))))
          = drop 1 (g_master_tx_buffer (u54_1_init boot_state))"
    and b: "map_option (\<lambda>t. (map fst (transfers (calls t)), g_master_tx_buffer t)) (u54_1 2)
         = Some (map (\<lambda>k. [of_nat (k mod 4), 0x01, 0x02, 0x03, 0xAA]) [0..<2],
                 [of_nat (2 mod 4), 0x01, 0x02, 0x03, 0xAA])"
    by simp_all
  from b have "map_option (\<lambda>t. map fst (transfers (calls t))) (u54_1 2)
       = Some [[0x00, 0x01, 0x02, 0x03, 0xAA], [0x01, 0x01, 0x02, 0x03, 0xAA]]"
    by (cases "u54_1 2") (simp_all add: two)
  with h a tx show ?thesis by simp
qed

text \<open>
  Claim C5, as the code has it.  Each pass performs exactly one transfer; it sends the
  command and turnaround bytes, five in all, and asks for \<open>SLAVE_PACKET_LENGTH\<close> = 8
  bytes to be read into the controller's receive buffer, whose size is 8 as well.
\<close>

theorem transfer_sizes:
  "map_option
     (\<lambda>s. (map (\<lambda>(bs, n, m). (length bs, n, m)) (transfers (calls s)),
            length (g_master_rx_buffer s)))
     (u54_1 n)
   = Some (replicate n
             (unat (COMMAND_BYTE_SIZE + NB_OF_TURNAROUND_BYTES),
              COMMAND_BYTE_SIZE + NB_OF_TURNAROUND_BYTES, SLAVE_PACKET_LENGTH),
           unat SLAVE_PACKET_LENGTH)"
proof -
  obtain s where s: "u54_1 n = Some s" and a: "at_cycle n s"
    and t: "transfers (calls s) =
              map (\<lambda>j. ([of_nat (j mod 4), 0x01, 0x02, 0x03, 0xAA], 5, 8)) [0..<n]"
    using u54_1_run [of n] by blast
  show ?thesis
    using s a t
    by (simp add: at_cycle_def configured_def macro_defs comp_def map_replicate_const)
qed

text \<open>
  The claim as stated fails: the controller's receive buffer is 8 bytes long, less than
  the 13 bytes of command, turnaround and reply together, and the first pass asks for 8
  bytes, not 13.
\<close>

theorem transfer_sizes_counterexample:
  "\<not> unat (COMMAND_BYTE_SIZE + NB_OF_TURNAROUND_BYTES + SLAVE_PACKET_LENGTH)
       \<le> length (g_master_rx_buffer (u54_1_init boot_state))
   \<and> map_option (map (snd \<circ> snd) \<circ> transfers \<circ> calls) (u54_1 1)
       \<noteq> Some [COMMAND_BYTE_SIZE + NB_OF_TURNAROUND_BYTES + SLAVE_PACKET_LENGTH]"
proof -
  obtain s where s: "u54_1 1 = Some s"
    and t: "transfers (calls s) =
              map (\<lambda>j. ([of_nat (j mod 4), 0x01, 0x02, 0x03, 0xAA], 5, 8)) [0..<1]"
    using u54_1_run [of 1] by blast
  have "length (g_master_rx_buffer (u54_1_init boot_state)) = 8"
    using init_configured by (simp add: configured_def macro_defs)
  then show ?thesis
    using s t by (simp add: macro_defs)
qed

section \<open>End to end\<close>

text \<open>
  Claim C4.  After any number of passes of the program, a frame with command byte 0, 1,
  2 or 3 and any four turnaround bytes is answered with the corresponding row of the
  table, \<open>0x01..0x08\<close>, \<open>0x11..0x18\<close>, \<open>0x21..0x28\<close>, \<open>0x31..0x38\<close>, and a frame with
  command byte 9 is answered with row 0.  The frames the program itself sends are
  answered so: after pass \<open>n\<close> (counted from 0) the receive buffer holds row \<open>n mod 4\<close>.
\<close>

theorem end_to_end_mapping:
  "Option.bind (u54_1 n) (\<lambda>s. reply_to s [0, a, b, c, d])
     = Some [0x01, 0x02, 0x03, 0x04, 0x05, 0x06, 0x07, 0x08]
   \<and> Option.bind (u54_1 n) (\<lambda>s. reply_to s [1, a, b, c, d])
     = Some [0x11, 0x12, 0x13, 0x14, 0x15, 0x16, 0x17, 0x18]
   \<and> Option.bind (u54_1 n) (\<lambda>s. reply_to s [2, a, b, c, d])
     = Some [0x21, 0x22, 0x23, 0x24, 0x25, 0x26, 0x27, 0x28]
   \<and> Option.bind (u54_1 n) (\<lambda>s. reply_to s [3, a, b, c, d])
     = Some [0x31, 0x32, 0x33, 0x34, 0x35, 0x36, 0x37, 0x38]
   \<and> Option.bind (u54_1 n) (\<lambda>s. reply_to s [9, a, b, c, d])
     = Some [0x01, 0x02, 0x03, 0x04, 0x05, 0x06, 0x07, 0x08]
   \<and> map_option g_master_rx_buffer (u54_1 (Suc n))
     = Some (g_slave_tx_buffer boot_state ! (n mod 4))"
proof -
  obtain s where s: "u54_1 n = Some s" and a: "at_cycle n s"
    and t: "g_slave_tx_buffer s = g_slave_tx_buffer boot_state"
    using u54_1_run [of n] by blast
  have c: "configured s"
    using a by (simp add: at_cycle_def)
  obtain s' where b: "u54_1_loop_body s = Some s'"
    and r: "g_master_rx_buffer s' = g_slave_tx_buffer s ! (n mod 4)"
    using loop_body_at_cycle [OF a] by blast
  have "u54_1 (Suc n) = Some s'"
    using s b by (simp add: u54_1_def cycles_snoc del: u54_1_cycles.simps)
  then have last: "map_option g_master_rx_buffer (u54_1 (Suc n))
                     = Some (g_slave_tx_buffer boot_state ! (n mod 4))"
    using r t by simp
  show ?thesis
    using last s by (simp add: reply_configured [OF c] t boot_table)
qed

section \<open>Overflow monitor\<close>

text \<open>
  Claim C6.  The overflow handler, called in any state with any endpoint identifier,
  makes one call, the one that switches the clock/reset of the selected peripheral on,
  and leaves the protocol state as it is: the response table, the command index, all
  buffers and both driver instances.  The other peripheral keeps its clock/reset state.
  The next pass of the loop then logs the same calls and ends in the same protocol state
  as it would have without the overflow, and any frame is answered as before.
\<close>

theorem overflow_handler_frame:
  "protocol_view (mss_spi_overflow_handler s core) = protocol_view s
   \<and> calls (mss_spi_overflow_handler s core)
       = calls s @ [Call_mss_config_clk_rst
                      (if core \<noteq> 0 then MSS_PERIPH_SPI1 else MSS_PERIPH_SPI0)
                      MPFS_HAL_FIRST_HART PERIPHERAL_ON]
   \<and> (if core \<noteq> 0
       then periph_spi1 (mss_spi_overflow_handler s core) = PERIPHERAL_ON
          \<and> periph_spi0 (mss_spi_overflow_handler s core) = periph_spi0 s
       else periph_spi0 (mss_spi_overflow_handler s core) = PERIPHERAL_ON
          \<and> periph_spi1 (mss_spi_overflow_handler s core) = periph_spi1 s)
   \<and> map_option (\<lambda>t. (protocol_view t, new_calls (mss_spi_overflow_handler s core) t))
        (u54_1_loop_body (mss_spi_overflow_handler s core))
     = map_option (\<lambda>t. (protocol_view t, new_calls s t)) (u54_1_loop_body s)
   \<and> reply_to (mss_spi_overflow_handler s core) frame = reply_to s frame"
proof -
  let ?s' = "mss_spi_overflow_handler s core"
  have 1: "protocol_view ?s' = protocol_view s"
    by (simp add: overflow_handler_eq protocol_view_def)
  have 2: "calls ?s' = calls s @ [Call_mss_config_clk_rst
                      (if core \<noteq> 0 then MSS_PERIPH_SPI1 else MSS_PERIPH_SPI0)
                      MPFS_HAL_FIRST_HART PERIPHERAL_ON]"
    by (simp add: overflow_handler_eq)
  have 3: "if core \<noteq> 0
       then periph_spi1 ?s' = PERIPHERAL_ON \<and> periph_spi0 ?s' = periph_spi0 s
       else periph_spi0 ?s' = PERIPHERAL_ON \<and> periph_spi1 ?s' = periph_spi1 s"
    by (simp add: overflow_handler_eq)
  define a where "a = periph_spi0 ?s'"
  define b where "b = periph_spi1 ?s'"
  define cs where "cs = calls ?s'"
  have e: "?s' = s\<lparr>periph_spi0 := a, periph_spi1 := b, calls := cs\<rparr>"
    unfolding a_def b_def cs_def by (simp add: overflow_handler_eq)
  have body: "u54_1_loop_body ?s' =
      map_option (\<lambda>t. t\<lparr>periph_spi0 := a, periph_spi1 := b,
                         calls := cs @ drop (length (calls s)) (calls t)\<rparr>)
        (u54_1_loop_body s)"
    by (subst e) (rule loop_body_rebase)
  have len: "length cs = Suc (length (calls s))"
    unfolding cs_def 2 by simp
  have 4: "map_option (\<lambda>t. (protocol_view t, new_calls ?s' t)) (u54_1_loop_body ?s')
     = map_option (\<lambda>t. (protocol_view t, new_calls s t)) (u54_1_loop_body s)"
  proof (cases "u54_1_loop_body s")
    case None
    then show ?thesis
      unfolding body by simp
  next
    case (Some t)
    from loop_body_calls [OF Some] obtain d where d: "calls t = calls s @ d"
      by blast
    have "new_calls ?s' (t\<lparr>periph_spi0 := a, periph_spi1 := b,
                            calls := cs @ drop (length (calls s)) (calls t)\<rparr>) = d"
      using d len by (simp add: new_calls_def cs_def [symmetric])
    moreover have "new_calls s t = d"
      using d by (simp add: new_calls_def)
    ultimately show ?thesis
      unfolding body Some by (simp add: view_rebase)
  qed
  have tr: "MSS_SPI_transfer_block ?s' SPI0_LO frame n m =
      map_option (\<lambda>t. t\<lparr>periph_spi0 := a, periph_spi1 := b,
                         calls := cs @ drop (length (calls s)) (calls t)\<rparr>)
        (MSS_SPI_transfer_block s SPI0_LO frame n m)" for n m
    by (subst e) (rule transfer_rebase)
  have rx: "g_master_rx_buffer ?s' = g_master_rx_buffer s"
    using 1 by (simp add: protocol_view_def)
  have 5: "reply_to ?s' frame = reply_to s frame"
    unfolding reply_to_def rx tr
    by (cases "MSS_SPI_transfer_block s SPI0_LO frame (COMMAND_BYTE_SIZE + NB_OF_TURNAROUND_BYTES)
          (of_nat (length (g_master_rx_buffer s)))") simp_all
  from 1 2 3 4 5 show ?thesis
    by blast
qed

text \<open>
  Claim C10.  The handler tests its argument against zero: for every identifier it
  makes exactly one clock/reset call, on SPI1 when the identifier is not zero and on
  SPI0 when it is zero; identifiers 1, 2 and 255 all select SPI1.
\<close>

theorem overflow_handler_selects:
  "calls (mss_spi_overflow_handler s core)
     = calls s @ [Call_mss_config_clk_rst
                    (if core \<noteq> 0 then MSS_PERIPH_SPI1 else MSS_PERIPH_SPI0)
                    MPFS_HAL_FIRST_HART PERIPHERAL_ON]
   \<and> switched (calls (mss_spi_overflow_handler s core))
     = switched (calls s)
       @ [(if core \<noteq> 0 then MSS_PERIPH_SPI1 else MSS_PERIPH_SPI0, PERIPHERAL_ON)]
   \<and> switched (new_calls s (mss_spi_overflow_handler s 0)) = [(MSS_PERIPH_SPI0, PERIPHERAL_ON)]
   \<and> switched (new_calls s (mss_spi_overflow_handler s 1)) = [(MSS_PERIPH_SPI1, PERIPHERAL_ON)]
   \<and> switched (new_calls s (mss_spi_overflow_handler s 2)) = [(MSS_PERIPH_SPI1, PERIPHERAL_ON)]
   \<and> switched (new_calls s (mss_spi_overflow_handler s 255)) = [(MSS_PERIPH_SPI1, PERIPHERAL_ON)]"
  by (simp add: overflow_handler_eq switched_append new_calls_def)

end
